theory Spec2Isabelle
  imports Main "HOL-Library.Word"
begin

section \<open>The errx package: enriched error values\<close>

text \<open>
  The repository holds two variants of the package. The function-based variant
  (\<^verbatim>\<open>New(msg, properties...)\<close>, \<^verbatim>\<open>Wrap(err, msg, properties...)\<close>, the options
  \<^verbatim>\<open>WithHTTPCode\<close>, \<^verbatim>\<open>WithCustomCode\<close>, \<^verbatim>\<open>WithContext\<close>) works on
  \<^verbatim>\<open>CustomError\<close> values and builds on \<^verbatim>\<open>github.com/pkg/errors\<close>. The method-based variant
  (\<^verbatim>\<open>src/errx.go\<close>) works on \<^verbatim>\<open>*CustomError\<close> pointers that its methods update in
  place. Both are embedded here; the names of the method-based variant carry the
  suffix \<open>_m\<close>, since the two files declare the same identifiers.
\<close>

subsection \<open>Values shared by both variants\<close>

text \<open>
  An address identifies an allocated object; two pointers are equal in Go exactly when
  they hold the same address. Go's \<^verbatim>\<open>int\<close> is taken at 64 bits; the package only stores
  and returns the codes. A \<^verbatim>\<open>context.Context\<close> is an opaque handle: the background
  context or some request-scoped one. An interface value that may be \<^verbatim>\<open>nil\<close> is an
  \<open>option\<close>, with \<open>None\<close> for \<^verbatim>\<open>nil\<close>.
\<close>

type_synonym addr = nat

type_synonym go_int = "64 word"

datatype Context = Background | Request nat

text \<open>
  The only run-time failure the package can meet is a method call through a \<^verbatim>\<open>nil\<close>
  interface or pointer.
\<close>

datatype panic = NilPointerDereference

subsection \<open>Function-based variant: the data model\<close>

text \<open>
  The dynamic types an \<^verbatim>\<open>error\<close> interface value can have in this variant:
  \<^item> \<open>Fundamental a msg\<close>: the \<^verbatim>\<open>*fundamental\<close> that \<^verbatim>\<open>errors.New\<close> allocates at \<open>a\<close>;
  \<^item> \<open>WithMessage a cause msg\<close> and \<open>WithStack a err\<close>: the two objects that
    \<^verbatim>\<open>errors.Wrap\<close> allocates, a \<^verbatim>\<open>*withStack\<close> around a \<^verbatim>\<open>*withMessage\<close>;
  \<^item> \<open>Val c\<close>: a \<^verbatim>\<open>CustomError\<close> struct held by value;
  \<^item> \<open>Ptr a c\<close>: a \<^verbatim>\<open>*CustomError\<close>, the pointer to the struct \<open>c\<close> allocated at \<open>a\<close>
    (no function of this variant writes through a pointer, so the pointer carries
    the struct it points to).
  The struct \<^verbatim>\<open>CustomError\<close> has the five fields of the source, in the source's order.
\<close>

datatype error =
    Fundamental addr string
  | WithMessage addr error string
  | WithStack addr error
  | Val CustomError
  | Ptr addr CustomError
and CustomError =
  CustomError (base: "error option") (Message: string) (HTTPCode: go_int)
              (CustomCode: go_int) (CTX: "Context option")

text \<open>
  \<^verbatim>\<open>Error()\<close> by dynamic type. \<^verbatim>\<open>CustomError.Error\<close> is the method of the source:
  \<^verbatim>\<open>fmt.Sprintf("%s: %s", baseErrMsg, e.Message)\<close>, where \<^verbatim>\<open>baseErrMsg\<close> is empty for
  a \<^verbatim>\<open>nil\<close> base. It has a value receiver, so a \<^verbatim>\<open>*CustomError\<close> has it too. The
  other three are those of \<^verbatim>\<open>github.com/pkg/errors\<close>: a \<^verbatim>\<open>*fundamental\<close> shows its
  message, a \<^verbatim>\<open>*withMessage\<close> shows \<^verbatim>\<open>msg + ": " + cause.Error()\<close>, a \<^verbatim>\<open>*withStack\<close>
  shows the error it holds.
\<close>

fun Error :: "error \<Rightarrow> string"
  and CustomError_Error :: "CustomError \<Rightarrow> string" where
  "Error (Fundamental a msg) = msg"
| "Error (WithMessage a cause msg) = msg @ '': '' @ Error cause"
| "Error (WithStack a err) = Error err"
| "Error (Val c) = CustomError_Error c"
| "Error (Ptr a c) = CustomError_Error c"
| "CustomError_Error (CustomError b msg h c x) =
     (let baseErrMsg = (case b of None \<Rightarrow> '''' | Some e \<Rightarrow> Error e)
      in baseErrMsg @ '': '' @ msg)"

text \<open>\<^verbatim>\<open>Cause()\<close> of the source returns the field \<^verbatim>\<open>base\<close>.\<close>

definition Cause :: "CustomError \<Rightarrow> error option" where
  "Cause e = base e"

subsection \<open>Function-based variant: the error primitives it calls\<close>

text \<open>
  Go's \<^verbatim>\<open>==\<close> on two non-nil interface values: the dynamic types must agree; pointers
  are then compared by address and structs field by field.
\<close>

fun go_eq :: "error \<Rightarrow> error \<Rightarrow> bool"
  and CustomError_eq :: "CustomError \<Rightarrow> CustomError \<Rightarrow> bool" where
  "go_eq (Fundamental a _) (Fundamental b _) = (a = b)"
| "go_eq (WithMessage a _ _) (WithMessage b _ _) = (a = b)"
| "go_eq (WithStack a _) (WithStack b _) = (a = b)"
| "go_eq (Ptr a _) (Ptr b _) = (a = b)"
| "go_eq (Val c) (Val d) = CustomError_eq c d"
| "go_eq _ _ = False"
| "CustomError_eq (CustomError b1 m1 h1 c1 x1) (CustomError b2 m2 h2 c2 x2) =
     ((case (b1, b2) of
         (None, None) \<Rightarrow> True
       | (Some e1, Some e2) \<Rightarrow> go_eq e1 e2
       | _ \<Rightarrow> False)
      \<and> m1 = m2 \<and> h1 = h2 \<and> c1 = c2 \<and> x1 = x2)"

text \<open>
  The step of the chain walk: \<^verbatim>\<open>Unwrap()\<close> where the dynamic type has that method.
  \<^verbatim>\<open>*withStack\<close> and \<^verbatim>\<open>*withMessage\<close> have it. \<^verbatim>\<open>*fundamental\<close> has none, and the
  \<^verbatim>\<open>CustomError\<close> of this variant declares only \<^verbatim>\<open>Error\<close> and \<^verbatim>\<open>Cause\<close>, so the walk
  stops at a \<^verbatim>\<open>CustomError\<close> and at a \<^verbatim>\<open>*CustomError\<close>.
\<close>

fun Unwrap :: "error \<Rightarrow> error option" where
  "Unwrap (WithMessage a cause msg) = Some cause"
| "Unwrap (WithStack a err) = Some err"
| "Unwrap (Fundamental a msg) = None"
| "Unwrap (Val c) = None"
| "Unwrap (Ptr a c) = None"

text \<open>
  Modelled from the spec: \<^verbatim>\<open>errors.New\<close> of \<^verbatim>\<open>github.com/pkg/errors\<close> is not under
  \<^verbatim>\<open>src/\<close>. It returns "a minimal generic wrapped error carrying only message": a
  newly allocated \<^verbatim>\<open>*fundamental\<close>. The address \<open>a\<close> is the one the allocator hands
  out.
\<close>

definition errors_New :: "addr \<Rightarrow> string \<Rightarrow> error" where
  "errors_New a msg = Fundamental a msg"

text \<open>
  Modelled from the spec: \<^verbatim>\<open>errors.Wrap\<close> of \<^verbatim>\<open>github.com/pkg/errors\<close> is not under
  \<^verbatim>\<open>src/\<close>. It "must produce an error whose display text is message followed by a
  separator and cause's display text, and whose predecessor (for chain-walking
  purposes) is cause"; the separator of the library is \<^verbatim>\<open>": "\<close>. It allocates a
  \<^verbatim>\<open>*withMessage\<close> at \<open>a\<close> and the \<^verbatim>\<open>*withStack\<close> it returns at \<open>Suc a\<close>. Its guard
  for a \<^verbatim>\<open>nil\<close> cause is never reached from \<^verbatim>\<open>Wrap\<close>, which tests for \<^verbatim>\<open>nil\<close> first.
\<close>

definition errors_Wrap :: "addr \<Rightarrow> error \<Rightarrow> string \<Rightarrow> error" where
  "errors_Wrap a err message = WithStack (Suc a) (WithMessage a err message)"

text \<open>
  Modelled from the spec: \<^verbatim>\<open>errors.As\<close> (the standard library's, which
  \<^verbatim>\<open>github.com/pkg/errors\<close> forwards to) is not under \<^verbatim>\<open>src/\<close>. It "must return true
  and populate destination iff some error in err's chain is assignable to
  destination's declared shape". The chain is the one \<^verbatim>\<open>Unwrap\<close> exposes, and the
  walk takes the first error that is assignable. The target's type is the parameter
  \<open>assignable\<close>, which yields the value stored in the target. None of the dynamic
  types above has an \<^verbatim>\<open>As\<close> method. The result \<open>None\<close> is \<^verbatim>\<open>false\<close>, with the
  target left as it was.
\<close>

function as_chain :: "(error \<Rightarrow> 'a option) \<Rightarrow> error \<Rightarrow> 'a option" where
  "as_chain assignable err =
     (case assignable err of
        Some v \<Rightarrow> Some v
      | None \<Rightarrow> (case Unwrap err of
                   None \<Rightarrow> None
                 | Some e \<Rightarrow> as_chain assignable e))"
  by pat_completeness auto
termination
proof (relation "measure (\<lambda>(assignable, err). size err)")
  show "wf (measure (\<lambda>(assignable :: error \<Rightarrow> 'a option, err). size err))"
    by simp
next
  fix assignable :: "error \<Rightarrow> 'a option" and err e :: error
  assume "Unwrap err = Some e"
  then have "size e < size err"
    by (cases err) auto
  then show "((assignable, e), (assignable, err)) \<in> measure (\<lambda>(assignable, err). size err)"
    by simp
qed

definition errors_As :: "error option \<Rightarrow> (error \<Rightarrow> 'a option) \<Rightarrow> 'a option" where
  "errors_As err assignable =
     (case err of None \<Rightarrow> None | Some e \<Rightarrow> as_chain assignable e)"

text \<open>
  The two targets an enriched error can be extracted into. The package itself always
  declares \<^verbatim>\<open>var customErr CustomError\<close> and passes \<^verbatim>\<open>&customErr\<close>: only a
  \<^verbatim>\<open>CustomError\<close> held by value is assignable to it, a \<^verbatim>\<open>*CustomError\<close> is not. A
  caller may also declare \<^verbatim>\<open>var p *CustomError\<close> and pass \<^verbatim>\<open>&p\<close>, to which only a
  \<^verbatim>\<open>*CustomError\<close> is assignable.
\<close>

fun to_CustomError :: "error \<Rightarrow> CustomError option" where
  "to_CustomError (Val c) = Some c"
| "to_CustomError _ = None"

fun to_CustomErrorPtr :: "error \<Rightarrow> (addr \<times> CustomError) option" where
  "to_CustomErrorPtr (Ptr a c) = Some (a, c)"
| "to_CustomErrorPtr _ = None"

text \<open>
  Modelled from the spec: \<^verbatim>\<open>errors.Is\<close> (the standard library's, which
  \<^verbatim>\<open>github.com/pkg/errors\<close> forwards to) is not under \<^verbatim>\<open>src/\<close>. It "must return true
  iff target appears anywhere in err's predecessor chain (by the language's standard
  equality-or-identity rule for errors)", and it relies on each error "exposing its
  immediate cause so this predicate can traverse past it": the chain is the one
  \<^verbatim>\<open>Unwrap\<close> exposes. None of the dynamic types above has an \<^verbatim>\<open>Is\<close> method. With a
  \<^verbatim>\<open>nil\<close> on either side the result is \<^verbatim>\<open>err == target\<close>.
\<close>

function is_chain :: "error \<Rightarrow> error \<Rightarrow> bool" where
  "is_chain err target =
     (if go_eq err target then True
      else (case Unwrap err of
              None \<Rightarrow> False
            | Some e \<Rightarrow> is_chain e target))"
  by pat_completeness auto
termination
proof (relation "measure (\<lambda>(err, target). size err)")
  show "wf (measure (\<lambda>(err :: error, target :: error). size err))"
    by simp
next
  fix err target e :: error
  assume "Unwrap err = Some e"
  then have "size e < size err"
    by (cases err) auto
  then show "((e, target), (err, target)) \<in> measure (\<lambda>(err, target). size err)"
    by simp
qed

definition errors_Is :: "error option \<Rightarrow> error option \<Rightarrow> bool" where
  "errors_Is err target =
     (case (err, target) of
        (Some e, Some t) \<Rightarrow> is_chain e t
      | _ \<Rightarrow> err = target)"

subsection \<open>Function-based variant: the package\<close>

text \<open>
  \<^verbatim>\<open>type Property func(err error) error\<close>. A property may be handed \<^verbatim>\<open>nil\<close>, and the
  three of this package then fail on \<^verbatim>\<open>err.Error()\<close>, so a property returns either a
  panic or an error value.
\<close>

type_synonym Property = "error option \<Rightarrow> panic + error option"

text \<open>
  The loop \<^verbatim>\<open>for _, property := range properties { result = property(result) }\<close>
  of \<^verbatim>\<open>New\<close> and \<^verbatim>\<open>Wrap\<close>; a panic ends it.
\<close>

fun apply_properties :: "Property list \<Rightarrow> error option \<Rightarrow> panic + error option" where
  "apply_properties [] result = Inr result"
| "apply_properties (property # properties) result =
     (case property result of
        Inl p \<Rightarrow> Inl p
      | Inr r \<Rightarrow> apply_properties properties r)"

text \<open>
  \<^verbatim>\<open>New\<close>: without properties the result of \<^verbatim>\<open>errors.New\<close>; otherwise the struct
  \<^verbatim>\<open>CustomError{Message: msg, CTX: context.Background()}\<close>, held by value, with
  the properties applied in order. The address \<open>a\<close> is the next one the allocator
  hands out.
\<close>

definition New :: "addr \<Rightarrow> string \<Rightarrow> Property list \<Rightarrow> panic + error option" where
  "New a msg properties =
     (if length properties = 0 then Inr (Some (errors_New a msg))
      else apply_properties properties
             (Some (Val (CustomError None msg 0 0 (Some Background)))))"

text \<open>
  \<^verbatim>\<open>Wrap\<close>: \<^verbatim>\<open>nil\<close> for \<^verbatim>\<open>nil\<close>; when \<^verbatim>\<open>errors.As(err, &customErr)\<close> succeeds, the
  pointer \<^verbatim>\<open>&CustomError{base: customErr, Message: msg}\<close> with the properties
  applied in order (the literal sets no other field, so the codes are zero and
  \<^verbatim>\<open>CTX\<close> is \<^verbatim>\<open>nil\<close>); otherwise \<^verbatim>\<open>errors.Wrap(err, msg)\<close>, the properties unused.
\<close>

definition Wrap :: "addr \<Rightarrow> error option \<Rightarrow> string \<Rightarrow> Property list \<Rightarrow> panic + error option" where
  "Wrap a err msg properties =
     (case err of
        None \<Rightarrow> Inr None
      | Some e \<Rightarrow>
          (case errors_As err to_CustomError of
             Some customErr \<Rightarrow>
               apply_properties properties
                 (Some (Ptr a (CustomError (Some (Val customErr)) msg 0 0 None)))
           | None \<Rightarrow> Inr (Some (errors_Wrap a e msg))))"

text \<open>
  The three options. Each tries \<^verbatim>\<open>errors.As(err, &customErr)\<close> with
  \<^verbatim>\<open>customErr\<close> of type \<^verbatim>\<open>CustomError\<close>. On success it returns the extracted struct
  with its one field replaced. Otherwise it returns a new struct whose message is
  \<^verbatim>\<open>err.Error()\<close> and whose only other field set is its own; that call panics for a
  \<^verbatim>\<open>nil\<close> error.
\<close>

definition WithHTTPCode :: "go_int \<Rightarrow> Property" where
  "WithHTTPCode httpCode err =
     (case errors_As err to_CustomError of
        Some customErr \<Rightarrow>
          Inr (Some (Val (CustomError (base customErr) (Message customErr) httpCode
                            (CustomCode customErr) (CTX customErr))))
      | None \<Rightarrow>
          (case err of
             None \<Rightarrow> Inl NilPointerDereference
           | Some e \<Rightarrow> Inr (Some (Val (CustomError None (Error e) httpCode 0 None)))))"

definition WithCustomCode :: "go_int \<Rightarrow> Property" where
  "WithCustomCode customCode err =
     (case errors_As err to_CustomError of
        Some customErr \<Rightarrow>
          Inr (Some (Val (CustomError (base customErr) (Message customErr) (HTTPCode customErr)
                            customCode (CTX customErr))))
      | None \<Rightarrow>
          (case err of
             None \<Rightarrow> Inl NilPointerDereference
           | Some e \<Rightarrow> Inr (Some (Val (CustomError None (Error e) 0 customCode None)))))"

definition WithContext :: "Context option \<Rightarrow> Property" where
  "WithContext ctx err =
     (case errors_As err to_CustomError of
        Some customErr \<Rightarrow>
          Inr (Some (Val (CustomError (base customErr) (Message customErr) (HTTPCode customErr)
                            (CustomCode customErr) ctx)))
      | None \<Rightarrow>
          (case err of
             None \<Rightarrow> Inl NilPointerDereference
           | Some e \<Rightarrow> Inr (Some (Val (CustomError None (Error e) 0 0 ctx)))))"

text \<open>The package's own \<^verbatim>\<open>Is\<close> and \<^verbatim>\<open>As\<close> forward to the primitives.\<close>

definition Is :: "error option \<Rightarrow> error option \<Rightarrow> bool" where
  "Is err target = errors_Is err target"

definition As :: "error option \<Rightarrow> (error \<Rightarrow> 'a option) \<Rightarrow> 'a option" where
  "As err target = errors_As err target"

text \<open>
  The display text of the error a call returned; a call that panicked returned none.
\<close>

fun text_of :: "panic + error option \<Rightarrow> string option" where
  "text_of (Inr (Some e)) = Some (Error e)"
| "text_of _ = None"

text \<open>
  What the package's own extraction, \<^verbatim>\<open>As(err, &customErr)\<close> with \<^verbatim>\<open>customErr\<close> of
  type \<^verbatim>\<open>CustomError\<close>, stores for the error a call returned.
\<close>

fun extracted :: "panic + error option \<Rightarrow> CustomError option" where
  "extracted (Inr err) = As err to_CustomError"
| "extracted (Inl p) = None"

subsection \<open>Method-based variant\<close>

text \<open>
  In \<^verbatim>\<open>src/errx.go\<close> every method has the receiver \<^verbatim>\<open>e *CustomError\<close> and the setters
  write through it, so the structs live in a store and an error value refers to one
  by its address. An \<^verbatim>\<open>error\<close> of this variant is \<open>Ref a\<close>, the \<^verbatim>\<open>*CustomError\<close>
  pointing to the struct at \<open>a\<close>, or \<open>Other a t\<close>, an error of any other type,
  allocated at \<open>a\<close>, whose \<^verbatim>\<open>Error()\<close> is \<open>t\<close>. A receiver with no struct in the
  store stands for the \<^verbatim>\<open>nil\<close> pointer: reading a field through it panics. Of the
  methods, the ones embedded are \<^verbatim>\<open>New\<close>, \<^verbatim>\<open>Error\<close>, \<^verbatim>\<open>Cause\<close> and \<^verbatim>\<open>Wrap\<close>.
\<close>

datatype error_m = Ref addr | Other addr string

record CustomError_m =
  base_m :: "error_m option"
  message_m :: string
  httpCode_m :: go_int
  customCode_m :: go_int
  ctx_m :: "Context option"

type_synonym store = "addr \<Rightarrow> CustomError_m option"

text \<open>The store before anything is allocated.\<close>

definition empty_store :: store where
  "empty_store a = None"

text \<open>
  \<^verbatim>\<open>New\<close>: \<^verbatim>\<open>&CustomError{message: msg, ctx: context.Background()}\<close>, allocated at
  the address \<open>a\<close> the allocator hands out.
\<close>

definition New_m :: "addr \<Rightarrow> store \<Rightarrow> string \<Rightarrow> error_m option \<times> store" where
  "New_m a s msg =
     (Some (Ref a),
      s(a \<mapsto> \<lparr>base_m = None, message_m = msg, httpCode_m = 0, customCode_m = 0,
               ctx_m = Some Background\<rparr>))"

text \<open>\<^verbatim>\<open>Error\<close>: \<^verbatim>\<open>return e.message\<close>.\<close>

definition Error_m :: "store \<Rightarrow> addr \<Rightarrow> panic + string" where
  "Error_m s e =
     (case s e of None \<Rightarrow> Inl NilPointerDereference | Some c \<Rightarrow> Inr (message_m c))"

text \<open>\<^verbatim>\<open>Cause\<close>: \<^verbatim>\<open>return e.base\<close>.\<close>

definition Cause_m :: "store \<Rightarrow> addr \<Rightarrow> panic + error_m option" where
  "Cause_m s e =
     (case s e of None \<Rightarrow> Inl NilPointerDereference | Some c \<Rightarrow> Inr (base_m c))"

text \<open>\<^verbatim>\<open>Wrap\<close>: \<^verbatim>\<open>e.base = err; return err\<close>.\<close>

definition Wrap_m :: "store \<Rightarrow> addr \<Rightarrow> error_m option \<Rightarrow> panic + (error_m option \<times> store)" where
  "Wrap_m s e err =
     (case s e of
        None \<Rightarrow> Inl NilPointerDereference
      | Some c \<Rightarrow> Inr (err, s(e \<mapsto> c\<lparr>base_m := err\<rparr>)))"

text \<open>
  \<^verbatim>\<open>err.Error()\<close> on an interface value of this variant, by dynamic type; the call
  panics on \<^verbatim>\<open>nil\<close>.
\<close>

fun error_text_m :: "store \<Rightarrow> error_m option \<Rightarrow> panic + string" where
  "error_text_m s None = Inl NilPointerDereference"
| "error_text_m s (Some (Ref a)) = Error_m s a"
| "error_text_m s (Some (Other a t)) = Inr t"

section \<open>Properties of the function-based variant\<close>

text \<open>
  C7. For every message and every sequence of properties, \<^verbatim>\<open>Wrap(nil, m, ...)\<close>
  returns \<^verbatim>\<open>nil\<close>: it does not panic, and no property is applied. The properties
  range over all functions here, those that would panic included.
\<close>

theorem C7_Wrap_nil: "Wrap a None m properties = Inr None"
  by (simp add: Wrap_def)

text \<open>
  C6. For every message \<open>m\<close>, \<^verbatim>\<open>New(m)\<close> without properties returns the error of
  \<^verbatim>\<open>errors.New\<close>; its display text is \<open>m\<close>, and \<^verbatim>\<open>As\<close> extracts no \<^verbatim>\<open>CustomError\<close>
  from it, neither into a \<^verbatim>\<open>CustomError\<close> nor into a \<^verbatim>\<open>*CustomError\<close> target.
\<close>

theorem C6_New_without_properties:
  "New a m [] = Inr (Some (errors_New a m))
   \<and> Error (errors_New a m) = m
   \<and> As (Some (errors_New a m)) to_CustomError = None
   \<and> As (Some (errors_New a m)) to_CustomErrorPtr = None"
  by (simp add: New_def errors_New_def As_def errors_As_def)

text \<open>
  C4. For every message \<open>m\<close> and codes \<open>h\<close> and \<open>c\<close> (zero or not),
  \<^verbatim>\<open>New(m, WithHTTPCode(h), WithCustomCode(c))\<close> extracts through \<^verbatim>\<open>As\<close> as a
  \<^verbatim>\<open>CustomError\<close> with \<^verbatim>\<open>HTTPCode == h\<close> and \<^verbatim>\<open>CustomCode == c\<close>: the second option
  keeps the field the first one set.
\<close>

theorem C4_New_two_codes_round_trip:
  "\<exists>ce. extracted (New a m [WithHTTPCode h, WithCustomCode c]) = Some ce
        \<and> HTTPCode ce = h \<and> CustomCode ce = c"
  by (simp add: New_def WithHTTPCode_def WithCustomCode_def As_def errors_As_def)

text \<open>
  C8. Properties are applied from left to right and a later one overwrites: for every
  message \<open>m\<close> and codes \<open>c1\<close>, \<open>c2\<close>, the error of
  \<^verbatim>\<open>New(m, WithHTTPCode(c1), WithHTTPCode(c2))\<close> extracts with \<^verbatim>\<open>HTTPCode == c2\<close>.
\<close>

theorem C8_last_HTTPCode_wins:
  "\<exists>ce. extracted (New a m [WithHTTPCode c1, WithHTTPCode c2]) = Some ce
        \<and> HTTPCode ce = c2"
  by (simp add: New_def WithHTTPCode_def As_def errors_As_def)

text \<open>
  C9. For every error \<open>p\<close> from which \<^verbatim>\<open>As\<close> extracts no \<^verbatim>\<open>CustomError\<close>, and every
  message \<open>y\<close>, \<^verbatim>\<open>Wrap(p, y)\<close> returns an error whose display text is \<open>y\<close>, then
  \<^verbatim>\<open>": "\<close>, then the display text of \<open>p\<close>: both texts occur, the new message first.
  Properties passed along are not used on this branch.
\<close>

theorem C9_Wrap_plain_prefixes_message:
  assumes "As (Some p) to_CustomError = None"
  shows "text_of (Wrap a (Some p) y properties) = Some (y @ '': '' @ Error p)"
  using assms by (simp add: Wrap_def As_def errors_Wrap_def)

theorem C9_Wrap_plain_prefixes_message_witness:
  "As (Some (Fundamental 0 ''x'')) to_CustomError = None
   \<and> Error (Fundamental 0 ''x'') = ''x''
   \<and> text_of (Wrap 1 (Some (Fundamental 0 ''x'')) ''y'' []) = Some ''y: x''"
proof -
  have plain: "As (Some (Fundamental 0 ''x'')) to_CustomError = None"
    by (simp add: As_def errors_As_def)
  show ?thesis
    using plain C9_Wrap_plain_prefixes_message [OF plain, of 1 "''y''" "[]"]
    by simp
qed

text \<open>
  C1. With \<^verbatim>\<open>e1 := New("m1", WithHTTPCode(404))\<close> and \<^verbatim>\<open>e2 := Wrap(e1, "m2")\<close>:
  \<open>e1\<close> is a \<^verbatim>\<open>CustomError\<close> held by value and \<open>e2\<close> is a \<^verbatim>\<open>*CustomError\<close> whose
  \<^verbatim>\<open>base\<close> is \<open>e1\<close>. \<^verbatim>\<open>As(e2, &customErr)\<close> with \<^verbatim>\<open>customErr\<close> of type
  \<^verbatim>\<open>CustomError\<close> returns false; only a \<^verbatim>\<open>*CustomError\<close> target takes \<open>e2\<close>, and
  through it \<^verbatim>\<open>Cause()\<close> is \<open>e1\<close>. \<^verbatim>\<open>Is(e2, e1)\<close> returns false: \<open>e2\<close> is not
  \<open>e1\<close>, and \<^verbatim>\<open>CustomError\<close> has no \<^verbatim>\<open>Unwrap\<close> for the chain walk to follow.
\<close>

theorem C1_Wrap_of_enriched_not_extracted:
  "New 0 ''m1'' [WithHTTPCode 404] =
     Inr (Some (Val (CustomError None ''m1'' 404 0 (Some Background))))
   \<and> Wrap 1 (Some (Val (CustomError None ''m1'' 404 0 (Some Background)))) ''m2'' [] =
     Inr (Some (Ptr 1 (CustomError
            (Some (Val (CustomError None ''m1'' 404 0 (Some Background)))) ''m2'' 0 0 None)))
   \<and> As (Some (Ptr 1 (CustomError
            (Some (Val (CustomError None ''m1'' 404 0 (Some Background)))) ''m2'' 0 0 None)))
        to_CustomError = None
   \<and> As (Some (Ptr 1 (CustomError
            (Some (Val (CustomError None ''m1'' 404 0 (Some Background)))) ''m2'' 0 0 None)))
        to_CustomErrorPtr =
     Some (1, CustomError
            (Some (Val (CustomError None ''m1'' 404 0 (Some Background)))) ''m2'' 0 0 None)
   \<and> Cause (CustomError
            (Some (Val (CustomError None ''m1'' 404 0 (Some Background)))) ''m2'' 0 0 None) =
     Some (Val (CustomError None ''m1'' 404 0 (Some Background)))
   \<and> Is (Some (Ptr 1 (CustomError
            (Some (Val (CustomError None ''m1'' 404 0 (Some Background)))) ''m2'' 0 0 None)))
        (Some (Val (CustomError None ''m1'' 404 0 (Some Background)))) = False"
  by (simp add: New_def Wrap_def WithHTTPCode_def As_def Is_def errors_As_def errors_Is_def
      Cause_def)

text \<open>
  C2. With \<^verbatim>\<open>e := New("m1", WithHTTPCode(404))\<close>, which extracts as a
  \<^verbatim>\<open>CustomError\<close>, \<^verbatim>\<open>Wrap(e, "m2", WithHTTPCode(500))\<close> returns a \<^verbatim>\<open>CustomError\<close>
  whose \<^verbatim>\<open>Cause()\<close> is \<^verbatim>\<open>nil\<close>: the option does not find a \<^verbatim>\<open>CustomError\<close> in the
  pointer that \<^verbatim>\<open>Wrap\<close> built, and replaces it by a new struct whose message is the
  pointer's display text and whose \<^verbatim>\<open>base\<close> is not set.
\<close>

theorem C2_property_after_Wrap_drops_cause:
  "As (Some (Val (CustomError None ''m1'' 404 0 (Some Background)))) to_CustomError =
     Some (CustomError None ''m1'' 404 0 (Some Background))
   \<and> Wrap 1 (Some (Val (CustomError None ''m1'' 404 0 (Some Background)))) ''m2''
        [WithHTTPCode 500] =
     Inr (Some (Val (CustomError None '': m1: m2'' 500 0 None)))
   \<and> Cause (CustomError None '': m1: m2'' 500 0 None) = None"
  by (simp add: Wrap_def WithHTTPCode_def As_def errors_As_def Cause_def)

text \<open>
  C3. With \<^verbatim>\<open>e := New("m1", WithHTTPCode(404))\<close>, the error of
  \<^verbatim>\<open>Wrap(e, "m2", WithCustomCode(7))\<close> extracts as a \<^verbatim>\<open>CustomError\<close> whose context
  is \<^verbatim>\<open>nil\<close>, not the background context: neither the literal in \<^verbatim>\<open>Wrap\<close> nor the
  one an option builds for an error that is no \<^verbatim>\<open>CustomError\<close> sets \<^verbatim>\<open>CTX\<close>.
\<close>

theorem C3_Wrap_with_property_nil_context:
  "extracted (Wrap 1 (Some (Val (CustomError None ''m1'' 404 0 (Some Background)))) ''m2''
        [WithCustomCode 7]) =
     Some (CustomError None '': m1: m2'' 0 7 None)
   \<and> CTX (CustomError None '': m1: m2'' 0 7 None) = None"
  by (simp add: Wrap_def WithCustomCode_def As_def errors_As_def)

section \<open>Display text in the two variants\<close>

text \<open>
  C5, as amended. In the function-based variant, for every \<^verbatim>\<open>CustomError\<close> with a
  non-nil cause, \<^verbatim>\<open>Error()\<close> is the cause's display text, then \<^verbatim>\<open>": "\<close>, then the
  error's own message. In the method-based variant, \<^verbatim>\<open>Error()\<close> is the error's own
  message alone, whatever its cause.
\<close>

theorem C5_Error_formats:
  "(base c = Some b \<longrightarrow> CustomError_Error c = Error b @ '': '' @ Message c)
   \<and> (s e = Some d \<longrightarrow> Error_m s e = Inr (message_m d))"
  by (cases c) (simp add: Error_m_def)

theorem C5_Error_formats_witness:
  "base (CustomError (Some (Fundamental 0 ''x'')) ''y'' 0 0 None) = Some (Fundamental 0 ''x'')
   \<and> CustomError_Error (CustomError (Some (Fundamental 0 ''x'')) ''y'' 0 0 None) = ''x: y''
   \<and> (empty_store(0 \<mapsto> \<lparr>base_m = Some (Other 1 ''x''), message_m = ''y'', httpCode_m = 0,
         customCode_m = 0, ctx_m = Some Background\<rparr>)) 0 =
       Some \<lparr>base_m = Some (Other 1 ''x''), message_m = ''y'', httpCode_m = 0,
         customCode_m = 0, ctx_m = Some Background\<rparr>
   \<and> Error_m (empty_store(0 \<mapsto> \<lparr>base_m = Some (Other 1 ''x''), message_m = ''y'',
         httpCode_m = 0, customCode_m = 0, ctx_m = Some Background\<rparr>)) 0 = Inr ''y''"
  using C5_Error_formats [of "CustomError (Some (Fundamental 0 ''x'')) ''y'' 0 0 None"
      "Fundamental 0 ''x''"
      "empty_store(0 \<mapsto> \<lparr>base_m = Some (Other 1 ''x''), message_m = ''y'', httpCode_m = 0,
         customCode_m = 0, ctx_m = Some Background\<rparr>)"
      0
      "\<lparr>base_m = Some (Other 1 ''x''), message_m = ''y'', httpCode_m = 0,
         customCode_m = 0, ctx_m = Some Background\<rparr>"]
  by simp

text \<open>
  C5, as stated, fails in the method-based variant. After \<^verbatim>\<open>e := New("y")\<close> and
  \<^verbatim>\<open>e.Wrap(x)\<close>, with \<open>x\<close> an error whose display text is \<^verbatim>\<open>"x"\<close>, the cause of
  \<open>e\<close> is \<open>x\<close> and \<^verbatim>\<open>e.Error()\<close> is \<^verbatim>\<open>"y"\<close>, not \<^verbatim>\<open>"x: y"\<close>.
\<close>

theorem C5_method_variant_counterexample:
  "Wrap_m (snd (New_m 0 empty_store ''y'')) 0 (Some (Other 1 ''x'')) =
     Inr (Some (Other 1 ''x''),
          empty_store(0 \<mapsto> \<lparr>base_m = Some (Other 1 ''x''), message_m = ''y'', httpCode_m = 0,
            customCode_m = 0, ctx_m = Some Background\<rparr>))
   \<and> Cause_m (empty_store(0 \<mapsto> \<lparr>base_m = Some (Other 1 ''x''), message_m = ''y'',
        httpCode_m = 0, customCode_m = 0, ctx_m = Some Background\<rparr>)) 0 =
     Inr (Some (Other 1 ''x''))
   \<and> error_text_m (empty_store(0 \<mapsto> \<lparr>base_m = Some (Other 1 ''x''), message_m = ''y'',
        httpCode_m = 0, customCode_m = 0, ctx_m = Some Background\<rparr>)) (Some (Other 1 ''x'')) =
     Inr ''x''
   \<and> Error_m (empty_store(0 \<mapsto> \<lparr>base_m = Some (Other 1 ''x''), message_m = ''y'',
        httpCode_m = 0, customCode_m = 0, ctx_m = Some Background\<rparr>)) 0 = Inr ''y''
   \<and> Error_m (empty_store(0 \<mapsto> \<lparr>base_m = Some (Other 1 ''x''), message_m = ''y'',
        httpCode_m = 0, customCode_m = 0, ctx_m = Some Background\<rparr>)) 0 \<noteq>
     Inr (''x'' @ '': '' @ ''y'')"
  by (simp add: Wrap_m_def New_m_def Cause_m_def Error_m_def)

section \<open>Properties of the method-based variant\<close>

text \<open>
  C10, as amended. For every \<^verbatim>\<open>*CustomError\<close> \<open>e\<close> that is not \<^verbatim>\<open>nil\<close> and every
  error \<open>err\<close> (\<^verbatim>\<open>nil\<close> included), \<^verbatim>\<open>e.Wrap(err)\<close> returns \<open>err\<close> itself and
  leaves a store in which only the \<^verbatim>\<open>base\<close> of \<open>e\<close> has changed, to \<open>err\<close>. So
  the cause of \<open>e\<close> is then \<open>err\<close>, the display text of \<open>e\<close> is what it was, the
  display text of the returned value is that of \<open>err\<close>, and the returned value is
  not the receiver unless \<open>err\<close> is the receiver. On a \<^verbatim>\<open>nil\<close> receiver the call
  panics.
\<close>

theorem C10_method_Wrap_returns_argument:
  "(s e = Some c \<longrightarrow>
      Wrap_m s e err = Inr (err, s(e \<mapsto> c\<lparr>base_m := err\<rparr>))
      \<and> Cause_m (s(e \<mapsto> c\<lparr>base_m := err\<rparr>)) e = Inr err
      \<and> Error_m (s(e \<mapsto> c\<lparr>base_m := err\<rparr>)) e = Error_m s e
      \<and> error_text_m (s(e \<mapsto> c\<lparr>base_m := err\<rparr>)) err = error_text_m s err
      \<and> (err \<noteq> Some (Ref e) \<longrightarrow>
           Wrap_m s e err \<noteq> Inr (Some (Ref e), s(e \<mapsto> c\<lparr>base_m := err\<rparr>))))
   \<and> (s e = None \<longrightarrow> Wrap_m s e err = Inl NilPointerDereference)"
proof (intro conjI impI)
  assume valid: "s e = Some c"
  show returned: "Wrap_m s e err = Inr (err, s(e \<mapsto> c\<lparr>base_m := err\<rparr>))"
    using valid by (simp add: Wrap_m_def)
  show "Cause_m (s(e \<mapsto> c\<lparr>base_m := err\<rparr>)) e = Inr err"
    by (simp add: Cause_m_def)
  show "Error_m (s(e \<mapsto> c\<lparr>base_m := err\<rparr>)) e = Error_m s e"
    using valid by (simp add: Error_m_def)
  show "error_text_m (s(e \<mapsto> c\<lparr>base_m := err\<rparr>)) err = error_text_m s err"
  proof (cases err)
    case None
    then show ?thesis by simp
  next
    case (Some x)
    then show ?thesis
      using valid by (cases x) (simp_all add: Error_m_def)
  qed
  assume "err \<noteq> Some (Ref e)"
  then show "Wrap_m s e err \<noteq> Inr (Some (Ref e), s(e \<mapsto> c\<lparr>base_m := err\<rparr>))"
    using returned by simp
next
  assume "s e = None"
  then show "Wrap_m s e err = Inl NilPointerDereference"
    by (simp add: Wrap_m_def)
qed

theorem C10_method_Wrap_returns_argument_witness:
  "(snd (New_m 0 empty_store ''outer'')) 0 =
     Some \<lparr>base_m = None, message_m = ''outer'', httpCode_m = 0, customCode_m = 0,
            ctx_m = Some Background\<rparr>
   \<and> Some (Other 1 ''inner'') \<noteq> Some (Ref 0)
   \<and> Wrap_m (snd (New_m 0 empty_store ''outer'')) 0 (Some (Other 1 ''inner'')) =
     Inr (Some (Other 1 ''inner''),
          empty_store(0 \<mapsto> \<lparr>base_m = Some (Other 1 ''inner''), message_m = ''outer'',
            httpCode_m = 0, customCode_m = 0, ctx_m = Some Background\<rparr>))
   \<and> Wrap_m (snd (New_m 0 empty_store ''outer'')) 0 (Some (Other 1 ''inner'')) \<noteq>
     Inr (Some (Ref 0),
          empty_store(0 \<mapsto> \<lparr>base_m = Some (Other 1 ''inner''), message_m = ''outer'',
            httpCode_m = 0, customCode_m = 0, ctx_m = Some Background\<rparr>))
   \<and> error_text_m (empty_store(0 \<mapsto> \<lparr>base_m = Some (Other 1 ''inner''),
          message_m = ''outer'', httpCode_m = 0, customCode_m = 0, ctx_m = Some Background\<rparr>))
        (Some (Other 1 ''inner'')) = Inr ''inner''
   \<and> empty_store 0 = None
   \<and> Wrap_m empty_store 0 (Some (Other 1 ''inner'')) = Inl NilPointerDereference"
proof -
  have allocated: "(snd (New_m 0 empty_store ''outer'')) 0 =
     Some \<lparr>base_m = None, message_m = ''outer'', httpCode_m = 0, customCode_m = 0,
            ctx_m = Some Background\<rparr>"
    by (simp add: New_m_def)
  have other: "Some (Other 1 ''inner'') \<noteq> Some (Ref 0)"
    by simp
  have unallocated: "empty_store 0 = None"
    by (simp add: empty_store_def)
  show ?thesis
    using allocated other unallocated
      C10_method_Wrap_returns_argument [of "snd (New_m 0 empty_store ''outer'')" 0
        "\<lparr>base_m = None, message_m = ''outer'', httpCode_m = 0, customCode_m = 0,
           ctx_m = Some Background\<rparr>"
        "Some (Other 1 ''inner'')"]
      C10_method_Wrap_returns_argument [of empty_store 0
        "\<lparr>base_m = None, message_m = ''outer'', httpCode_m = 0, customCode_m = 0,
           ctx_m = Some Background\<rparr>"
        "Some (Other 1 ''inner'')"]
    by (simp add: New_m_def)
qed

text \<open>
  C10, as stated, fails at two inputs. On a receiver that points to no struct, the
  \<^verbatim>\<open>nil\<close> pointer, \<^verbatim>\<open>e.Wrap(err)\<close> panics at \<^verbatim>\<open>e.base = err\<close>: it returns nothing
  and sets nothing. And after \<^verbatim>\<open>g := New("g")\<close>, \<^verbatim>\<open>g.Wrap(g)\<close> returns \<open>g\<close>, which
  is the receiver.
\<close>

theorem C10_nil_receiver_and_self_wrap_counterexample:
  "Wrap_m empty_store 0 (Some (Other 1 ''inner'')) = Inl NilPointerDereference
   \<and> New_m 0 empty_store ''g'' =
       (Some (Ref 0),
        empty_store(0 \<mapsto> \<lparr>base_m = None, message_m = ''g'', httpCode_m = 0,
          customCode_m = 0, ctx_m = Some Background\<rparr>))
   \<and> Wrap_m (empty_store(0 \<mapsto> \<lparr>base_m = None, message_m = ''g'', httpCode_m = 0,
          customCode_m = 0, ctx_m = Some Background\<rparr>)) 0 (Some (Ref 0)) =
       Inr (Some (Ref 0),
            empty_store(0 \<mapsto> \<lparr>base_m = Some (Ref 0), message_m = ''g'', httpCode_m = 0,
              customCode_m = 0, ctx_m = Some Background\<rparr>))"
  by (simp add: Wrap_m_def New_m_def empty_store_def)

end
